theory Spec2Isabelle
  imports Main
begin

section \<open>JavaScript values, completions and promises\<close>

text \<open>
  The provider of \<^verbatim>\<open>src/index.ts\<close> moves untyped JSON-RPC data around: parameters,
  results and thrown values are all \<^verbatim>\<open>any\<close>. They are modelled by one datatype of
  JavaScript values. Objects are association lists in property order; an \<^verbatim>\<open>Error\<close>
  instance is the object of the properties the code reads from it (\<^verbatim>\<open>message\<close>,
  \<^verbatim>\<open>code\<close>). Numbers are the integers and \<^verbatim>\<open>NaN\<close>: the code handles request ids,
  error codes and the result of \<^verbatim>\<open>parseInt\<close> only. Function values are not part of
  this datatype; the one place where a function is an argument (the callback) has a type
  of its own below.
\<close>

datatype jsval =
    JUndefined
  | JNull
  | JBool bool
  | JNum int
  | JNaN
  | JStr string
  | JArr "jsval list"
  | JObj "(string \<times> jsval) list"

text \<open>A call either returns or throws; a promise is described by how it ends:
  fulfilled, rejected, or never settled.\<close>

datatype 'a completion = Return 'a | Throw jsval

datatype 'a promise = Fulfilled 'a | Rejected jsval | Pending

fun truthy :: "jsval \<Rightarrow> bool" where
  "truthy JUndefined = False"
| "truthy JNull = False"
| "truthy (JBool b) = b"
| "truthy (JNum n) = (n \<noteq> 0)"
| "truthy JNaN = False"
| "truthy (JStr s) = (s \<noteq> [])"
| "truthy (JArr xs) = True"
| "truthy (JObj fs) = True"

fun nullish :: "jsval \<Rightarrow> bool" where
  "nullish JUndefined = True"
| "nullish JNull = True"
| "nullish v = False"

fun isArray :: "jsval \<Rightarrow> bool" where
  "isArray (JArr xs) = True"
| "isArray v = False"

fun decimal :: "nat \<Rightarrow> string" where
  "decimal n =
     (if n < 10 then [''0123456789'' ! n]
      else decimal (n div 10) @ [''0123456789'' ! (n mod 10)])"

text \<open>\<open>Error msg\<close> is \<^verbatim>\<open>new Error(msg)\<close>. \<open>TypeError p v\<close> is what reading property
  \<open>p\<close> of \<open>v\<close> throws when \<open>v\<close> is null or undefined (the wording of the message is
  the engine's; V8's is used).\<close>

definition Error :: "string \<Rightarrow> jsval" where
  "Error msg = JObj [(''message'', JStr msg)]"

definition TypeError :: "string \<Rightarrow> jsval \<Rightarrow> jsval" where
  "TypeError p v =
     JObj [(''name'', JStr ''TypeError''),
           (''message'', JStr (''Cannot read properties of ''
              @ (if v = JNull then ''null'' else ''undefined'')
              @ '' (reading '' @ [CHR 0x27] @ p @ [CHR 0x27] @ '')''))]"

text \<open>Property access. \<open>lookup v p\<close> is \<^verbatim>\<open>v.p\<close> for a value that is neither null nor
  undefined: an own property of an object, \<^verbatim>\<open>undefined\<close> otherwise (none of the names
  the code reads is a built-in property of a primitive or of an array). \<open>get\<close> adds the
  throw on null and undefined, \<open>get_opt\<close> is the optional chain \<^verbatim>\<open>v?.p\<close>.\<close>

fun lookup :: "jsval \<Rightarrow> string \<Rightarrow> jsval" where
  "lookup (JObj fs) p = (case map_of fs p of Some v \<Rightarrow> v | None \<Rightarrow> JUndefined)"
| "lookup v p = JUndefined"

definition get :: "jsval \<Rightarrow> string \<Rightarrow> jsval completion" where
  "get v p = (if nullish v then Throw (TypeError p v) else Return (lookup v p))"

definition get_opt :: "jsval \<Rightarrow> string \<Rightarrow> jsval" where
  "get_opt v p = (if nullish v then JUndefined else lookup v p)"

text \<open>\<open>index v i\<close> is \<^verbatim>\<open>v[i]\<close> for a value that is neither null nor undefined (the
  code indexes \<^verbatim>\<open>request.params || []\<close> and arrays only).\<close>

fun index :: "jsval \<Rightarrow> nat \<Rightarrow> jsval" where
  "index (JArr xs) i = (if i < length xs then xs ! i else JUndefined)"
| "index (JObj fs) i = lookup (JObj fs) (decimal i)"
| "index (JStr s) i = (if i < length s then JStr [s ! i] else JUndefined)"
| "index v i = JUndefined"

text \<open>Object spread with one overriding property, \<^verbatim>\<open>{ ...res, id: n }\<close>: the own
  enumerable properties of \<open>res\<close>, then the assignment of \<open>id\<close>.\<close>

fun own_props :: "jsval \<Rightarrow> (string \<times> jsval) list" where
  "own_props (JObj fs) = fs"
| "own_props (JArr xs) = zip (map decimal [0..<length xs]) xs"
| "own_props (JStr s) = zip (map decimal [0..<length s]) (map (\<lambda>c. JStr [c]) s)"
| "own_props v = []"

fun assign :: "string \<Rightarrow> jsval \<Rightarrow> (string \<times> jsval) list \<Rightarrow> (string \<times> jsval) list" where
  "assign k v [] = [(k, v)]"
| "assign k v ((k', v') # fs) = (if k' = k then (k, v) # fs else (k', v') # assign k v fs)"

definition spread_id :: "jsval \<Rightarrow> int \<Rightarrow> jsval" where
  "spread_id res n = JObj (assign ''id'' (JNum n) (own_props res))"

fun then_map :: "('a \<Rightarrow> 'b) \<Rightarrow> 'a promise \<Rightarrow> 'b promise" where
  "then_map f (Fulfilled v) = Fulfilled (f v)"
| "then_map f (Rejected e) = Rejected e"
| "then_map f Pending = Pending"

section \<open>Requests, the runtime and the collaborators\<close>

record JSONRPCRequest =
  jsonrpc :: string
  id' :: int
  "method" :: string
  params :: jsval

text \<open>The request as the object that is handed to a collaborator.\<close>

definition request_obj :: "JSONRPCRequest \<Rightarrow> jsval" where
  "request_obj r =
     JObj [(''jsonrpc'', JStr (jsonrpc r)), (''id'', JNum (id' r)),
           (''method'', JStr (method r)), (''params'', params r)]"

text \<open>The members of the enum \<^verbatim>\<open>JSONRPCMethod\<close> that the provider switches on. The
  enum is declared in \<^verbatim>\<open>./JSONRPC\<close>, which is not part of the sources at hand, so the
  string of each member is a parameter (\<open>methodName\<close> below). \<^verbatim>\<open>parseInt(s, 10)\<close>
  (\<open>None\<close> is \<^verbatim>\<open>NaN\<close>) and the string conversion of a template literal for a value
  that is not a string are the JavaScript runtime's and are parameters as well.\<close>

datatype JSONRPCMethod =
    M_eth_accounts | M_net_version | M_eth_chainId
  | M_eth_subscribe | M_eth_unsubscribe
  | M_personal_sign | M_personal_ecRecover | M_eth_signTransaction
  | M_eth_sendRawTransaction | M_eth_sendTransaction | M_eth_blockNumber
  | M_eth_getBlockByNumber | M_eth_getGasPrice | M_wallet_watchAsset
  | M_eth_getTransactionReceipt | M_eth_call

record runtime =
  methodName :: "JSONRPCMethod \<Rightarrow> string"
  parseInt10 :: "string \<Rightarrow> int option"
  ToString :: "jsval \<Rightarrow> string"

definition template :: "runtime \<Rightarrow> jsval \<Rightarrow> string" where
  "template rt v = (case v of JStr s \<Rightarrow> s | _ \<Rightarrow> ToString rt v)"

text \<open>The underlying wallet (\<^verbatim>\<open>kaikasProvider\<close>). \<open>networkVersion\<close> is a string, as
  \<^verbatim>\<open>getChainId(): string\<close> declares. \<open>enable_settles\<close> is how the promise of
  \<^verbatim>\<open>enable()\<close> ends. \<^verbatim>\<open>sendAsync(payload, callback)\<close> answers through its callback:
  \<open>sendAsync_reply payload\<close> says whether it stays silent, throws before returning, or
  invokes the callback once with \<^verbatim>\<open>(err, result)\<close>; the flag of \<open>Calls\<close> tells whether
  the callback runs inside the call of \<^verbatim>\<open>sendAsync\<close> itself, so that an exception of the
  callback comes back out of that call. \<open>sendAsync_returns payload\<close> is the value the call
  returns, as an \<^verbatim>\<open>async\<close> function that returns it sees it: \<open>Fulfilled v\<close> for a plain
  value (\<open>JUndefined\<close> for a \<^verbatim>\<open>void\<close> function), \<open>Rejected e\<close> for a throw or a
  rejected promise, \<open>Pending\<close> for a promise that never settles.\<close>

datatype native_reply = Silent | Raises jsval | Calls bool jsval jsval

record kaikas =
  networkVersion :: string
  selectedAddress :: jsval
  enable_settles :: "string list promise"
  sendAsync_reply :: "jsval \<Rightarrow> native_reply"
  sendAsync_returns :: "jsval \<Rightarrow> jsval promise"

text \<open>The chain client (\<^verbatim>\<open>caver\<close>): each operation by how its awaited result ends.\<close>

record Caver =
  klay_sign :: "jsval \<Rightarrow> jsval \<Rightarrow> jsval promise"
  utils_recover :: "jsval \<Rightarrow> jsval \<Rightarrow> jsval promise"
  klay_signTransaction :: "jsval \<Rightarrow> jsval promise"
  klay_sendTransaction :: "jsval \<Rightarrow> jsval promise"
  rpc_klay_getGasPrice :: "jsval promise"
  rpc_klay_getBlockNumber :: "jsval promise"
  rpc_klay_getBlockByNumber :: "jsval \<Rightarrow> jsval \<Rightarrow> jsval promise"
  rpc_klay_getTransactionReceipt :: "jsval \<Rightarrow> jsval promise"

text \<open>The result of the subscription manager, \<^verbatim>\<open>{ result }\<close>, and the provider
  object with the fields of the class. \<open>subscriptionManager\<close> is the manager's
  \<^verbatim>\<open>handleRequest\<close> (the class \<^verbatim>\<open>SubscriptionManager\<close> is not part of the sources at
  hand); a throw of it is a rejection, as the \<^verbatim>\<open>try\<close> block of the dispatcher makes it.\<close>

datatype SubscriptionResult = SubscriptionResult (result: jsval)

record KaikasWeb3Provider =
  kaikasProvider :: kaikas
  chainId :: string
  caver :: Caver
  addresses :: "string list"
  subscriptionManager :: "JSONRPCRequest \<Rightarrow> SubscriptionResult promise"

text \<open>Every call of the wallet's \<^verbatim>\<open>sendAsync\<close> is logged with its payload and whether
  a callback was passed. An asynchronous operation of the provider is the list of these
  calls together with the end of its promise.\<close>

datatype native_call = NativeCall (payload: jsval) (with_callback: bool)

type_synonym 'a async = "native_call list \<times> 'a promise"

section \<open>The provider\<close>

text \<open>Names follow \<^verbatim>\<open>src/index.ts\<close>; a leading underscore of a private member is
  dropped and \<open>id\<close> carries a prime, since Isabelle does not take the source's
  spelling.\<close>

subsection \<open>Construction and authorization\<close>

definition getChainId :: "KaikasWeb3Provider \<Rightarrow> string" where
  "getChainId this = networkVersion (kaikasProvider this)"

definition constructor ::
  "kaikas \<Rightarrow> Caver \<Rightarrow> (JSONRPCRequest \<Rightarrow> SubscriptionResult promise) \<Rightarrow> KaikasWeb3Provider" where
  "constructor provider c sm =
     \<lparr>kaikasProvider = provider, chainId = networkVersion provider, caver = c,
      addresses = [], subscriptionManager = sm\<rparr>"

text \<open>\<open>enable this\<close> gives the number of times the call invokes the wallet's
  \<^verbatim>\<open>enable()\<close>, the end of the promise it returns, and the provider once that promise
  has ended.\<close>

definition enable :: "KaikasWeb3Provider \<Rightarrow> nat \<times> string list promise \<times> KaikasWeb3Provider" where
  "enable this =
     (if length (addresses this) > 0 then (0, Fulfilled (addresses this), this)
      else (case enable_settles (kaikasProvider this) of
              Fulfilled res \<Rightarrow> (1, Fulfilled res, this\<lparr>addresses := res\<rparr>)
            | Rejected e \<Rightarrow> (1, Rejected e, this)
            | Pending \<Rightarrow> (1, Pending, this)))"

subsection \<open>Synchronous and subscription methods\<close>

definition eth_accounts :: "KaikasWeb3Provider \<Rightarrow> jsval" where
  "eth_accounts this = JArr (map JStr (addresses this))"

definition eth_chainId :: "KaikasWeb3Provider \<Rightarrow> jsval" where
  "eth_chainId this = JStr (getChainId this)"

definition net_version :: "runtime \<Rightarrow> KaikasWeb3Provider \<Rightarrow> jsval" where
  "net_version rt this =
     (case parseInt10 rt (networkVersion (kaikasProvider this)) of
        Some n \<Rightarrow> JNum n | None \<Rightarrow> JNaN)"

definition handleSynchronousMethods ::
  "runtime \<Rightarrow> KaikasWeb3Provider \<Rightarrow> JSONRPCRequest \<Rightarrow> jsval" where
  "handleSynchronousMethods rt this request =
     (if method request = methodName rt M_eth_accounts then eth_accounts this
      else if method request = methodName rt M_net_version then net_version rt this
      else if method request = methodName rt M_eth_chainId then eth_chainId this
      else JUndefined)"

text \<open>The case labels of that switch.\<close>

definition synchronous_methods :: "runtime \<Rightarrow> string list" where
  "synchronous_methods rt =
     [methodName rt M_eth_accounts, methodName rt M_net_version, methodName rt M_eth_chainId]"

definition handleSubscriptionMethods ::
  "runtime \<Rightarrow> KaikasWeb3Provider \<Rightarrow> JSONRPCRequest \<Rightarrow> SubscriptionResult promise option" where
  "handleSubscriptionMethods rt this request =
     (if method request = methodName rt M_eth_subscribe
         \<or> method request = methodName rt M_eth_unsubscribe
      then Some (subscriptionManager this request)
      else None)"

subsection \<open>Translated asynchronous methods\<close>

text \<open>The response every translator builds, with the placeholder id 0.\<close>

definition response0 :: "jsval \<Rightarrow> jsval" where
  "response0 v = JObj [(''jsonrpc'', JStr ''2.0''), (''id'', JNum 0), (''result'', v)]"

definition invalidParams :: "string \<Rightarrow> jsval" where
  "invalidParams msg = JObj [(''code'', JNum (- 32602)), (''message'', JStr msg)]"

definition userRejectedRequest :: "string \<Rightarrow> jsval" where
  "userRejectedRequest msg = JObj [(''code'', JNum 4001), (''message'', JStr msg)]"

text \<open>A promise built around the wallet's callback interface:
  \<^verbatim>\<open>new Promise((resolve, reject) => kaikasProvider.sendAsync(payload, handler))\<close>.
  The handler returns the settlement it asks for, or throws.\<close>

definition from_callback ::
  "kaikas \<Rightarrow> jsval \<Rightarrow> (jsval \<Rightarrow> jsval \<Rightarrow> 'a promise completion) \<Rightarrow> 'a async" where
  "from_callback k pl handler =
     ([NativeCall pl True],
      case sendAsync_reply k pl of
        Silent \<Rightarrow> Pending
      | Raises e \<Rightarrow> Rejected e
      | Calls inside err res \<Rightarrow>
          (case handler err res of
             Return p \<Rightarrow> p
           | Throw e \<Rightarrow> if inside then Rejected e else Pending))"

definition eth_call_handler :: "jsval \<Rightarrow> jsval \<Rightarrow> jsval promise completion" where
  "eth_call_handler err res =
     (case get res ''result'' of
        Throw e \<Rightarrow> Throw e
      | Return r \<Rightarrow> Return (if truthy r then Fulfilled res else Rejected err))"

definition eth_call :: "KaikasWeb3Provider \<Rightarrow> jsval \<Rightarrow> jsval async" where
  "eth_call this ps =
     from_callback (kaikasProvider this)
       (JObj [(''method'', JStr ''klay_call''), (''params'', JArr [index ps 0, index ps 1])])
       eth_call_handler"

definition eth_getGasPrice :: "KaikasWeb3Provider \<Rightarrow> jsval \<Rightarrow> jsval promise" where
  "eth_getGasPrice this ps = then_map response0 (rpc_klay_getGasPrice (caver this))"

definition watchAsset_handler :: "jsval \<Rightarrow> jsval \<Rightarrow> jsval promise completion" where
  "watchAsset_handler err res =
     (case get res ''result'' of
        Throw e \<Rightarrow> Throw e
      | Return r \<Rightarrow> Return (if truthy r then Fulfilled (JBool (truthy r)) else Rejected err))"

definition watchAsset ::
  "KaikasWeb3Provider \<Rightarrow> jsval \<Rightarrow> jsval \<Rightarrow> jsval \<Rightarrow> jsval \<Rightarrow> jsval \<Rightarrow> jsval async" where
  "watchAsset this type address symbol decimals image' =
     from_callback (kaikasProvider this)
       (JObj [(''method'', JStr ''wallet_watchAsset''),
              (''params'', JObj [(''type'', type),
                 (''options'', JObj [(''address'', address), (''symbol'', symbol),
                                    (''decimals'', decimals), (''image'', image')])])])
       watchAsset_handler"

text \<open>\<^verbatim>\<open>_wallet_watchAsset\<close>. The first test reads \<^verbatim>\<open>request.type\<close> without the
  optional chain of the later ones. (The \<^verbatim>\<open>console.log\<close> is left out.)\<close>

definition wallet_watchAsset :: "runtime \<Rightarrow> KaikasWeb3Provider \<Rightarrow> jsval \<Rightarrow> jsval async" where
  "wallet_watchAsset rt this ps =
     (let request = (if isArray ps then index ps 0 else ps) in
      case get request ''type'' of
        Throw e \<Rightarrow> ([], Rejected e)
      | Return t \<Rightarrow>
          if \<not> truthy t then ([], Rejected (invalidParams ''Type is required''))
          else if get_opt request ''type'' \<noteq> JStr ''ERC20'' then
            ([], Rejected (invalidParams
                   (''Asset of type '' @ [CHR 0x27] @ template rt t @ [CHR 0x27]
                      @ '' is not supported'')))
          else if \<not> truthy (get_opt request ''options'') then
            ([], Rejected (invalidParams ''Options are required''))
          else if \<not> truthy (lookup (get_opt request ''options'') ''address'') then
            ([], Rejected (invalidParams ''Address is required''))
          else
            (let options = lookup request ''options'';
                 (calls, p) = watchAsset this t (lookup options ''address'')
                    (lookup options ''symbol'') (lookup options ''decimals'')
                    (lookup options ''image'')
             in (calls, then_map response0 p)))"

definition personal_sign :: "KaikasWeb3Provider \<Rightarrow> jsval \<Rightarrow> jsval promise" where
  "personal_sign this ps =
     then_map response0 (klay_sign (caver this) (index ps 0) (index ps 1))"

text \<open>The rejection test of the two transaction translators,
  \<^verbatim>\<open>/(denied|rejected)/i\<close>: a search for either word, ASCII letters compared without
  case (a regular expression without the \<^verbatim>\<open>u\<close> flag never folds a character outside
  ASCII onto an ASCII letter).\<close>

definition toLower :: "char \<Rightarrow> char" where
  "toLower c =
     (case map_of (zip ''ABCDEFGHIJKLMNOPQRSTUVWXYZ'' ''abcdefghijklmnopqrstuvwxyz'') c of
        Some l \<Rightarrow> l | None \<Rightarrow> c)"

fun starts_with :: "string \<Rightarrow> string \<Rightarrow> bool" where
  "starts_with [] s = True"
| "starts_with (p # ps) [] = False"
| "starts_with (p # ps) (c # cs) = (p = c \<and> starts_with ps cs)"

fun contains :: "string \<Rightarrow> string \<Rightarrow> bool" where
  "contains pat [] = (pat = [])"
| "contains pat (c # cs) = (starts_with pat (c # cs) \<or> contains pat cs)"

definition match_denied_rejected :: "string \<Rightarrow> bool" where
  "match_denied_rejected s =
     (contains ''denied'' (map toLower s) \<or> contains ''rejected'' (map toLower s))"

text \<open>The \<^verbatim>\<open>catch\<close> block shared by \<^verbatim>\<open>_eth_sendTransaction\<close> and
  \<^verbatim>\<open>_eth_signTransaction\<close>.\<close>

definition catch_rejection :: "jsval \<Rightarrow> jsval promise" where
  "catch_rejection err =
     (case get err ''message'' of
        Throw e \<Rightarrow> Rejected e
      | Return m \<Rightarrow>
          (case m of
             JStr s \<Rightarrow>
               if match_denied_rejected s
               then Rejected (userRejectedRequest ''User denied transaction signature'')
               else Rejected err
           | _ \<Rightarrow> Rejected err))"

definition eth_sendTransaction :: "KaikasWeb3Provider \<Rightarrow> jsval \<Rightarrow> jsval promise" where
  "eth_sendTransaction this ps =
     (case klay_sendTransaction (caver this) (index ps 0) of
        Fulfilled res \<Rightarrow>
          (case get res ''transactionHash'' of
             Return h \<Rightarrow> Fulfilled (response0 h)
           | Throw e \<Rightarrow> catch_rejection e)
      | Rejected err \<Rightarrow> catch_rejection err
      | Pending \<Rightarrow> Pending)"

definition eth_signTransaction :: "KaikasWeb3Provider \<Rightarrow> jsval \<Rightarrow> jsval promise" where
  "eth_signTransaction this ps =
     (case klay_signTransaction (caver this) (index ps 0) of
        Fulfilled res \<Rightarrow> Fulfilled (response0 res)
      | Rejected err \<Rightarrow> catch_rejection err
      | Pending \<Rightarrow> Pending)"

definition eth_sendRawTransaction :: "KaikasWeb3Provider \<Rightarrow> jsval \<Rightarrow> jsval promise" where
  "eth_sendRawTransaction this ps =
     (case klay_sendTransaction (caver this)
             (JObj [(''senderRawTransaction'', index ps 0),
                    (''feePayer'', selectedAddress (kaikasProvider this))]) of
        Fulfilled res \<Rightarrow>
          (case get res ''transactionHash'' of
             Return h \<Rightarrow> Fulfilled (response0 h)
           | Throw e \<Rightarrow> Rejected e)
      | Rejected err \<Rightarrow> Rejected err
      | Pending \<Rightarrow> Pending)"

definition eth_getTransactionReceipt :: "KaikasWeb3Provider \<Rightarrow> jsval \<Rightarrow> jsval promise" where
  "eth_getTransactionReceipt this ps =
     then_map response0 (rpc_klay_getTransactionReceipt (caver this) (index ps 0))"

definition personal_ecRecover :: "KaikasWeb3Provider \<Rightarrow> jsval \<Rightarrow> jsval promise" where
  "personal_ecRecover this ps =
     then_map response0 (utils_recover (caver this) (index ps 0) (index ps 1))"

definition eth_blockNumber :: "KaikasWeb3Provider \<Rightarrow> jsval \<Rightarrow> jsval promise" where
  "eth_blockNumber this ps = then_map response0 (rpc_klay_getBlockNumber (caver this))"

definition eth_getBlockByNumber :: "KaikasWeb3Provider \<Rightarrow> jsval \<Rightarrow> jsval promise" where
  "eth_getBlockByNumber this ps =
     then_map response0 (rpc_klay_getBlockByNumber (caver this) (index ps 0) (index ps 1))"

text \<open>\<^verbatim>\<open>_handleAsynchronousMethods\<close>: the switch over the translated methods, and
  after it \<^verbatim>\<open>return this.kaikasProvider.sendAsync(request)\<close>, a call with the request
  alone.\<close>

definition handleAsynchronousMethods ::
  "runtime \<Rightarrow> KaikasWeb3Provider \<Rightarrow> JSONRPCRequest \<Rightarrow> jsval async" where
  "handleAsynchronousMethods rt this request =
     (let m = method request;
          ps = (if truthy (params request) then params request else JArr [])
      in
      if m = methodName rt M_personal_sign then ([], personal_sign this ps)
      else if m = methodName rt M_personal_ecRecover then ([], personal_ecRecover this ps)
      else if m = methodName rt M_eth_signTransaction then ([], eth_signTransaction this ps)
      else if m = methodName rt M_eth_sendRawTransaction then ([], eth_sendRawTransaction this ps)
      else if m = methodName rt M_eth_sendTransaction then ([], eth_sendTransaction this ps)
      else if m = methodName rt M_eth_blockNumber then ([], eth_blockNumber this ps)
      else if m = methodName rt M_eth_getBlockByNumber then ([], eth_getBlockByNumber this ps)
      else if m = methodName rt M_eth_getGasPrice then ([], eth_getGasPrice this ps)
      else if m = methodName rt M_wallet_watchAsset then wallet_watchAsset rt this ps
      else if m = methodName rt M_eth_getTransactionReceipt then
        ([], eth_getTransactionReceipt this ps)
      else if m = methodName rt M_eth_call then eth_call this ps
      else ([NativeCall (request_obj request) False],
            sendAsync_returns (kaikasProvider this) (request_obj request)))"

text \<open>The case labels of that switch, and of the two switches that come before it in
  the dispatcher.\<close>

definition translated_methods :: "runtime \<Rightarrow> string list" where
  "translated_methods rt =
     map (methodName rt)
       [M_personal_sign, M_personal_ecRecover, M_eth_signTransaction, M_eth_sendRawTransaction,
        M_eth_sendTransaction, M_eth_blockNumber, M_eth_getBlockByNumber, M_eth_getGasPrice,
        M_wallet_watchAsset, M_eth_getTransactionReceipt, M_eth_call]"

definition subscription_methods :: "runtime \<Rightarrow> string list" where
  "subscription_methods rt = [methodName rt M_eth_subscribe, methodName rt M_eth_unsubscribe]"

subsection \<open>The dispatcher\<close>

definition response :: "int \<Rightarrow> jsval \<Rightarrow> jsval" where
  "response n v = JObj [(''jsonrpc'', JStr ''2.0''), (''id'', JNum n), (''result'', v)]"

text \<open>\<^verbatim>\<open>_sendRequestAsync\<close>. The last stage resolves only when the translator's
  value is truthy (\<^verbatim>\<open>res && resolve({ ...res, id: request.id })\<close>).\<close>

definition sendRequestAsync ::
  "runtime \<Rightarrow> KaikasWeb3Provider \<Rightarrow> JSONRPCRequest \<Rightarrow> jsval async" where
  "sendRequestAsync rt this request =
     (let syncResult = handleSynchronousMethods rt this request in
      if syncResult \<noteq> JUndefined then ([], Fulfilled (response (id' request) syncResult))
      else
        (case handleSubscriptionMethods rt this request of
           Some subscriptionPromise \<Rightarrow>
             ([], then_map (\<lambda>res. response (id' request) (result res)) subscriptionPromise)
         | None \<Rightarrow>
             (let (calls, p) = handleAsynchronousMethods rt this request in
              (calls,
               case p of
                 Fulfilled res \<Rightarrow>
                   if truthy res then Fulfilled (spread_id res (id' request)) else Pending
               | Rejected err \<Rightarrow> Rejected err
               | Pending \<Rightarrow> Pending))))"

subsection \<open>Batches\<close>

text \<open>\<^verbatim>\<open>Promise.all\<close>. \<open>rank i\<close> is the moment at which the promise at index \<open>i\<close>
  settles, so \<open>rank\<close> is the order of completion. The result is rejected with the
  reason of the member that rejects first (the lower index among equal moments), it is
  fulfilled with the values in the order of the input when every member is fulfilled,
  and it never settles otherwise.\<close>

fun first_rejection :: "(nat \<Rightarrow> nat) \<Rightarrow> nat \<Rightarrow> 'a promise list \<Rightarrow> (nat \<times> jsval) option" where
  "first_rejection rank i [] = None"
| "first_rejection rank i (Rejected e # ps) =
     (case first_rejection rank (Suc i) ps of
        None \<Rightarrow> Some (rank i, e)
      | Some (t, e') \<Rightarrow> if rank i \<le> t then Some (rank i, e) else Some (t, e'))"
| "first_rejection rank i (p # ps) = first_rejection rank (Suc i) ps"

fun values_of :: "'a promise list \<Rightarrow> 'a list option" where
  "values_of [] = Some []"
| "values_of (Fulfilled v # ps) =
     (case values_of ps of Some vs \<Rightarrow> Some (v # vs) | None \<Rightarrow> None)"
| "values_of (p # ps) = None"

definition Promise_all :: "(nat \<Rightarrow> nat) \<Rightarrow> 'a promise list \<Rightarrow> 'a list promise" where
  "Promise_all rank ps =
     (case first_rejection rank 0 ps of
        Some (t, e) \<Rightarrow> Rejected e
      | None \<Rightarrow> (case values_of ps of Some vs \<Rightarrow> Fulfilled vs | None \<Rightarrow> Pending))"

definition sendMultipleRequestsAsync ::
  "runtime \<Rightarrow> KaikasWeb3Provider \<Rightarrow> (nat \<Rightarrow> nat) \<Rightarrow> JSONRPCRequest list \<Rightarrow> jsval list async" where
  "sendMultipleRequestsAsync rt this rank requests =
     (concat (map (\<lambda>r. fst (sendRequestAsync rt this r)) requests),
      Promise_all rank (map (\<lambda>r. snd (sendRequestAsync rt this r)) requests))"

subsection \<open>The entry points\<close>

text \<open>A callback is the completion of each of its invocations with \<^verbatim>\<open>(err, result)\<close>.
  The second argument of \<^verbatim>\<open>sendAsync\<close> is a function or some other value. The
  invocations of the callback are logged in order.\<close>

type_synonym Callback = "jsval \<Rightarrow> jsval \<Rightarrow> unit completion"

datatype callback_arg = Function Callback | NotFunction jsval

datatype request_arg = Single JSONRPCRequest | Batch "JSONRPCRequest list"

type_synonym 'a traced = "(jsval \<times> jsval) list \<times> 'a"

definition invoke :: "Callback \<Rightarrow> jsval \<Rightarrow> jsval \<Rightarrow> unit completion traced" where
  "invoke cb err res = ([(err, res)], cb err res)"

text \<open>\<^verbatim>\<open>p.then(f)\<close> and \<^verbatim>\<open>p.catch(g)\<close> for handlers that return nothing: the new
  promise is fulfilled with \<^verbatim>\<open>undefined\<close> when the handler returns and rejected with
  what the handler throws; a promise the handler is not for passes through.\<close>

definition handled :: "unit completion \<Rightarrow> jsval promise" where
  "handled c = (case c of Return u \<Rightarrow> Fulfilled JUndefined | Throw e \<Rightarrow> Rejected e)"

definition then_do ::
  "'a promise traced \<Rightarrow> ('a \<Rightarrow> unit completion traced) \<Rightarrow> jsval promise traced" where
  "then_do tp f =
     (case snd tp of
        Fulfilled v \<Rightarrow> (fst tp @ fst (f v), handled (snd (f v)))
      | Rejected e \<Rightarrow> (fst tp, Rejected e)
      | Pending \<Rightarrow> (fst tp, Pending))"

definition catch_do ::
  "jsval promise traced \<Rightarrow> (jsval \<Rightarrow> unit completion traced) \<Rightarrow> jsval promise traced" where
  "catch_do tp g =
     (case snd tp of
        Rejected e \<Rightarrow> (fst tp @ fst (g e), handled (snd (g e)))
      | Fulfilled v \<Rightarrow> (fst tp, Fulfilled v)
      | Pending \<Rightarrow> (fst tp, Pending))"

text \<open>What a call that went through the asynchronous pipeline did: the calls of the
  wallet's \<^verbatim>\<open>sendAsync\<close>, the invocations of the caller's callback, and the end of the
  promise it returned. An \<^verbatim>\<open>async\<close> function never throws to its caller: a throw of
  its body is the rejection of the promise it returns.\<close>

record dispatched =
  native_calls :: "native_call list"
  callback_calls :: "(jsval \<times> jsval) list"
  returned :: "jsval promise"

definition async :: "dispatched completion \<Rightarrow> dispatched completion" where
  "async body =
     (case body of
        Return d \<Rightarrow> Return d
      | Throw e \<Rightarrow> Return \<lparr>native_calls = [], callback_calls = [], returned = Rejected e\<rparr>)"

definition sendAsync ::
  "runtime \<Rightarrow> KaikasWeb3Provider \<Rightarrow> (nat \<Rightarrow> nat) \<Rightarrow> request_arg \<Rightarrow> callback_arg
     \<Rightarrow> dispatched completion" where
  "sendAsync rt this rank request callback =
     async
       (case callback of
          NotFunction v \<Rightarrow> Throw (Error ''callback is required'')
        | Function cb \<Rightarrow>
            (case request of
               Batch requests \<Rightarrow>
                 (let (calls, p) = sendMultipleRequestsAsync rt this rank requests;
                      (cbs, q) = catch_do
                         (then_do ([], p) (\<lambda>responses. invoke cb JNull (JArr responses)))
                         (\<lambda>err. invoke cb err JNull)
                  in Return \<lparr>native_calls = calls, callback_calls = cbs,
                             returned = Fulfilled JUndefined\<rparr>)
             | Single r \<Rightarrow>
                 (let (calls, p) = sendRequestAsync rt this r;
                      (cbs, q) = catch_do
                         (then_do ([], p) (\<lambda>response. invoke cb JNull response))
                         (\<lambda>err. invoke cb err JNull)
                  in Return \<lparr>native_calls = calls, callback_calls = cbs, returned = q\<rparr>)))"

text \<open>\<^verbatim>\<open>_sendRequest\<close>, the synchronous path of \<^verbatim>\<open>send\<close>.\<close>

definition unsupported :: "string \<Rightarrow> jsval" where
  "unsupported m =
     Error (''Kaikas Wallet does not support calling '' @ m @ '' synchronously without ''
            @ ''a callback. Please provide a callback parameter to call '' @ m @ '' ''
            @ ''asynchronously.'')"

definition sendRequest :: "runtime \<Rightarrow> KaikasWeb3Provider \<Rightarrow> JSONRPCRequest \<Rightarrow> jsval completion" where
  "sendRequest rt this request =
     (let res = handleSynchronousMethods rt this request in
      if res = JUndefined then Throw (unsupported (method request))
      else Return (response (id' request) res))"

text \<open>\<^verbatim>\<open>requests.map(f)\<close> for an \<open>f\<close> that may throw: the first throw ends the call.\<close>

fun map_throwing :: "('a \<Rightarrow> 'b completion) \<Rightarrow> 'a list \<Rightarrow> 'b list completion" where
  "map_throwing f [] = Return []"
| "map_throwing f (x # xs) =
     (case f x of
        Throw e \<Rightarrow> Throw e
      | Return y \<Rightarrow> (case map_throwing f xs of Throw e \<Rightarrow> Throw e | Return ys \<Rightarrow> Return (y # ys)))"

text \<open>\<^verbatim>\<open>send\<close>, by the shapes of its declared overloads: a method name with
  parameters, or a request or sequence of requests with a second argument that is a
  callback or not. What it gives back is a response, a sequence of responses, or what an
  asynchronous dispatch did.\<close>

datatype send_args = SendMethod string jsval | SendRequest request_arg callback_arg

datatype send_result = Response jsval | Responses "jsval list" | Dispatched dispatched

fun send ::
  "runtime \<Rightarrow> KaikasWeb3Provider \<Rightarrow> (nat \<Rightarrow> nat) \<Rightarrow> send_args \<Rightarrow> send_result completion" where
  "send rt this rank (SendMethod m callbackOrParams) =
     (let ps = (if isArray callbackOrParams then callbackOrParams
                else if callbackOrParams \<noteq> JUndefined then JArr [callbackOrParams]
                else JArr []);
          request = \<lparr>jsonrpc = ''2.0'', id' = 0, method = m, params = ps\<rparr>;
          (calls, p) = sendRequestAsync rt this request
      in Return (Dispatched
           \<lparr>native_calls = calls, callback_calls = [],
            returned = (case p of
                          Fulfilled res \<Rightarrow>
                            (case get res ''result'' of
                               Return v \<Rightarrow> Fulfilled v | Throw e \<Rightarrow> Rejected e)
                        | Rejected e \<Rightarrow> Rejected e
                        | Pending \<Rightarrow> Pending)\<rparr>))"
| "send rt this rank (SendRequest request (Function cb)) =
     (case sendAsync rt this rank request (Function cb) of
        Return d \<Rightarrow> Return (Dispatched d)
      | Throw e \<Rightarrow> Throw e)"
| "send rt this rank (SendRequest (Batch requests) (NotFunction v)) =
     (case map_throwing (sendRequest rt this) requests of
        Return rs \<Rightarrow> Return (Responses rs)
      | Throw e \<Rightarrow> Throw e)"
| "send rt this rank (SendRequest (Single req) (NotFunction v)) =
     (case sendRequest rt this req of
        Return r \<Rightarrow> Return (Response r)
      | Throw e \<Rightarrow> Throw e)"

section \<open>A concrete wallet, chain client and runtime\<close>

text \<open>An instance on which the theorems below are evaluated: the enum members carry
  their own names, the wallet is on network 8217, follows the callback contract
  (\<^verbatim>\<open>sendAsync\<close> returns nothing and answers through the callback, from a later turn)
  and grants two accounts; the chain client answers the gas price and refuses to send
  transactions.\<close>

fun example_names :: "JSONRPCMethod \<Rightarrow> string" where
  "example_names M_eth_accounts = ''eth_accounts''"
| "example_names M_net_version = ''net_version''"
| "example_names M_eth_chainId = ''eth_chainId''"
| "example_names M_eth_subscribe = ''eth_subscribe''"
| "example_names M_eth_unsubscribe = ''eth_unsubscribe''"
| "example_names M_personal_sign = ''personal_sign''"
| "example_names M_personal_ecRecover = ''personal_ecRecover''"
| "example_names M_eth_signTransaction = ''eth_signTransaction''"
| "example_names M_eth_sendRawTransaction = ''eth_sendRawTransaction''"
| "example_names M_eth_sendTransaction = ''eth_sendTransaction''"
| "example_names M_eth_blockNumber = ''eth_blockNumber''"
| "example_names M_eth_getBlockByNumber = ''eth_getBlockByNumber''"
| "example_names M_eth_getGasPrice = ''eth_gasPrice''"
| "example_names M_wallet_watchAsset = ''wallet_watchAsset''"
| "example_names M_eth_getTransactionReceipt = ''eth_getTransactionReceipt''"
| "example_names M_eth_call = ''eth_call''"

definition example_runtime :: runtime where
  "example_runtime =
     \<lparr>methodName = example_names,
      parseInt10 = (\<lambda>s. if s = ''8217'' then Some 8217 else None),
      ToString = (\<lambda>v. ''[object Object]'')\<rparr>"

definition example_wallet :: kaikas where
  "example_wallet =
     \<lparr>networkVersion = ''8217'',
      selectedAddress = JStr ''0xA'',
      enable_settles = Fulfilled [''0xA'', ''0xB''],
      sendAsync_reply = (\<lambda>pl. Calls False JNull
         (JObj [(''jsonrpc'', JStr ''2.0''), (''id'', JNum 1), (''result'', JStr ''0x10'')])),
      sendAsync_returns = (\<lambda>pl. Fulfilled JUndefined)\<rparr>"

definition example_caver :: Caver where
  "example_caver =
     \<lparr>klay_sign = (\<lambda>m a. Fulfilled (JStr ''0xsig'')),
      utils_recover = (\<lambda>m s. Fulfilled (JStr ''0xA'')),
      klay_signTransaction = (\<lambda>tx. Rejected (Error ''insufficient funds'')),
      klay_sendTransaction = (\<lambda>tx. Rejected (Error ''User DENIED the transaction'')),
      rpc_klay_getGasPrice = Fulfilled (JStr ''0x5d21dba00''),
      rpc_klay_getBlockNumber = Fulfilled (JStr ''0x2a''),
      rpc_klay_getBlockByNumber = (\<lambda>n f. Fulfilled JNull),
      rpc_klay_getTransactionReceipt = (\<lambda>h. Pending)\<rparr>"

definition example_provider :: KaikasWeb3Provider where
  "example_provider =
     constructor example_wallet example_caver
       (\<lambda>r. Fulfilled (SubscriptionResult (JStr ''0x1'')))"

definition example_request :: "int \<Rightarrow> string \<Rightarrow> jsval \<Rightarrow> JSONRPCRequest" where
  "example_request n m ps = \<lparr>jsonrpc = ''2.0'', id' = n, method = m, params = ps\<rparr>"

text \<open>A callback that throws when it is handed a result, and one that never throws.\<close>

definition throwing_callback :: Callback where
  "throwing_callback err res = (if err = JNull then Throw (Error ''boom'') else Return ())"

definition quiet_callback :: Callback where
  "quiet_callback err res = Return ()"

section \<open>Properties\<close>

lemmas example_defs = example_runtime_def example_wallet_def example_caver_def
  example_provider_def example_request_def constructor_def

subsection \<open>Responses carry the id of their request\<close>

lemma map_of_assign: "map_of (assign k v fs) k = Some v"
  by (induction fs) auto

lemma get_spread_id: "get (spread_id res n) ''id'' = Return (JNum n)"
  by (simp add: get_def spread_id_def map_of_assign)

lemma get_response_id: "get (response n v) ''id'' = Return (JNum n)"
  by (simp add: get_def response_def)

lemma fulfilled_response_id:
  assumes "snd (sendRequestAsync rt this request) = Fulfilled res"
  shows "get res ''id'' = Return (JNum (id' request))"
proof (cases "handleSynchronousMethods rt this request = JUndefined")
  case False
  with assms have "res = response (id' request) (handleSynchronousMethods rt this request)"
    by (simp add: sendRequestAsync_def Let_def)
  then show ?thesis by (simp add: get_response_id)
next
  case sync: True
  show ?thesis
  proof (cases "handleSubscriptionMethods rt this request")
    case (Some sp)
    with sync assms have "then_map (\<lambda>r. response (id' request) (result r)) sp = Fulfilled res"
      by (simp add: sendRequestAsync_def Let_def)
    then obtain r where "res = response (id' request) (result r)"
      by (cases sp) auto
    then show ?thesis by (simp add: get_response_id)
  next
    case None
    obtain cs p where h: "handleAsynchronousMethods rt this request = (cs, p)"
      by (cases "handleAsynchronousMethods rt this request")
    with sync None assms obtain v where "res = spread_id v (id' request)"
      by (cases p) (auto simp: sendRequestAsync_def Let_def split: if_splits)
    then show ?thesis by (simp add: get_spread_id)
  qed
qed

text \<open>
  C1. Whenever the asynchronous pipeline \<open>sendRequestAsync\<close> delivers a response, on
  whichever path (synchronous, subscription, translated, or forwarded to the wallet),
  the \<open>id\<close> of the response is the \<open>id\<close> of the request, although a translator such as
  \<open>eth_getGasPrice\<close> builds its response with the id 0.
\<close>

theorem response_id_is_request_id:
  assumes "sendRequestAsync rt this request = (calls, Fulfilled res)"
  shows "get res ''id'' = Return (JNum (id' request))
         \<and> (\<forall>r. eth_getGasPrice this ps = Fulfilled r \<longrightarrow> get r ''id'' = Return (JNum 0))"
proof
  from assms have "snd (sendRequestAsync rt this request) = Fulfilled res" by simp
  then show "get res ''id'' = Return (JNum (id' request))"
    by (rule fulfilled_response_id)
next
  show "\<forall>r. eth_getGasPrice this ps = Fulfilled r \<longrightarrow> get r ''id'' = Return (JNum 0)"
    by (cases "rpc_klay_getGasPrice (caver this)")
       (auto simp: eth_getGasPrice_def response0_def get_def)
qed

theorem response_id_is_request_id_witness:
  "sendRequestAsync example_runtime example_provider (example_request 7 ''eth_gasPrice'' (JArr []))
     = ([], Fulfilled (JObj [(''jsonrpc'', JStr ''2.0''), (''id'', JNum 7),
                             (''result'', JStr ''0x5d21dba00'')]))
   \<and> eth_getGasPrice example_provider (JArr [])
     = Fulfilled (JObj [(''jsonrpc'', JStr ''2.0''), (''id'', JNum 0),
                        (''result'', JStr ''0x5d21dba00'')])
   \<and> get (JObj [(''jsonrpc'', JStr ''2.0''), (''id'', JNum 7),
                 (''result'', JStr ''0x5d21dba00'')]) ''id'' = Return (JNum 7)"
proof -
  have run: "sendRequestAsync example_runtime example_provider
               (example_request 7 ''eth_gasPrice'' (JArr []))
             = ([], Fulfilled (JObj [(''jsonrpc'', JStr ''2.0''), (''id'', JNum 7),
                                     (''result'', JStr ''0x5d21dba00'')]))"
    by (simp add: example_defs sendRequestAsync_def handleSynchronousMethods_def
          handleSubscriptionMethods_def handleAsynchronousMethods_def eth_getGasPrice_def
          response0_def spread_id_def)
  have gas: "eth_getGasPrice example_provider (JArr [])
     = Fulfilled (JObj [(''jsonrpc'', JStr ''2.0''), (''id'', JNum 0),
                        (''result'', JStr ''0x5d21dba00'')])"
    by (simp add: example_defs eth_getGasPrice_def response0_def)
  from response_id_is_request_id [OF run, of "JArr []"] run gas show ?thesis
    by (simp add: example_request_def)
qed

subsection \<open>Batches keep the order of their requests\<close>

lemma first_rejection_Fulfilled: "first_rejection rank i (map Fulfilled vs) = None"
  by (induction vs arbitrary: i) auto

lemma values_of_Fulfilled: "values_of (map Fulfilled vs) = Some vs"
  by (induction vs) auto

lemma Promise_all_Fulfilled: "Promise_all rank (map Fulfilled vs) = Fulfilled vs"
  by (simp add: Promise_all_def first_rejection_Fulfilled values_of_Fulfilled)

lemma deliver_calls:
  "fst (catch_do (then_do ([], p) (\<lambda>v. invoke cb JNull (f v))) (\<lambda>err. invoke cb err JNull)) =
     (case p of
        Pending \<Rightarrow> []
      | Rejected e \<Rightarrow> [(e, JNull)]
      | Fulfilled v \<Rightarrow>
          (case cb JNull (f v) of
             Return u \<Rightarrow> [(JNull, f v)]
           | Throw e \<Rightarrow> [(JNull, f v), (e, JNull)]))"
  by (auto simp: catch_do_def then_do_def invoke_def handled_def
      split: promise.splits completion.splits)

lemma sendAsync_Single:
  "\<exists>d. sendAsync rt this rank (Single r) (Function cb) = Return d
       \<and> native_calls d = fst (sendRequestAsync rt this r)
       \<and> callback_calls d =
           fst (catch_do (then_do ([], snd (sendRequestAsync rt this r))
                  (\<lambda>v. invoke cb JNull v)) (\<lambda>err. invoke cb err JNull))"
  by (simp add: sendAsync_def async_def split_beta Let_def)

lemma sendAsync_Batch:
  "\<exists>d. sendAsync rt this rank (Batch rs) (Function cb) = Return d
       \<and> native_calls d = fst (sendMultipleRequestsAsync rt this rank rs)
       \<and> callback_calls d =
           fst (catch_do (then_do ([], snd (sendMultipleRequestsAsync rt this rank rs))
                  (\<lambda>v. invoke cb JNull (JArr v))) (\<lambda>err. invoke cb err JNull))"
  by (simp add: sendAsync_def async_def split_beta Let_def)

lemma values_of_Some: "values_of ps = Some vs \<Longrightarrow> ps = map Fulfilled vs"
proof (induction ps arbitrary: vs)
  case Nil
  then show ?case by simp
next
  case (Cons p ps)
  then show ?case by (cases p) (auto split: option.splits)
qed

lemma Promise_all_Fulfilled_iff:
  "Promise_all rank ps = Fulfilled vs \<longleftrightarrow> ps = map Fulfilled vs"
proof
  assume "Promise_all rank ps = Fulfilled vs"
  then have "values_of ps = Some vs"
    by (auto simp: Promise_all_def split: option.splits)
  then show "ps = map Fulfilled vs" by (rule values_of_Some)
next
  assume "ps = map Fulfilled vs"
  then show "Promise_all rank ps = Fulfilled vs" by (simp add: Promise_all_Fulfilled)
qed

lemma batch_fulfilled_members:
  assumes "snd (sendMultipleRequestsAsync rt this rank rs) = Fulfilled resps"
  shows "map (\<lambda>r. snd (sendRequestAsync rt this r)) rs = map Fulfilled resps"
  using assms by (simp add: sendMultipleRequestsAsync_def Promise_all_Fulfilled_iff)

lemma all_fulfilled_values:
  "\<forall>p \<in> set ps. \<exists>v. p = Fulfilled v \<Longrightarrow> \<exists>vs. ps = map Fulfilled vs"
proof (induction ps)
  case Nil
  then show ?case by simp
next
  case (Cons p ps)
  then obtain v where v: "p = Fulfilled v" by auto
  from Cons obtain vs where vs: "ps = map Fulfilled vs" by auto
  from v vs have "p # ps = map Fulfilled (v # vs)" by simp
  then show ?case by (rule exI)
qed

text \<open>
  C2. For a batch of N requests passed to \<open>sendAsync\<close> with a callback, each of whose
  members is answered, the batch is answered under every order of completion \<open>rank\<close>:
  the callback is invoked, first of all with a sequence \<open>resps\<close> of N responses, and
  the response at each index is the answer to the request at the same index and carries
  its id.
\<close>

theorem batch_responses_in_request_order:
  assumes "\<forall>r \<in> set rs. \<exists>v. snd (sendRequestAsync rt this r) = Fulfilled v"
  shows "\<exists>resps d.
           snd (sendMultipleRequestsAsync rt this rank rs) = Fulfilled resps
         \<and> sendAsync rt this rank (Batch rs) (Function cb) = Return d
         \<and> callback_calls d \<noteq> []
         \<and> hd (callback_calls d) = (JNull, JArr resps)
         \<and> length resps = length rs
         \<and> (\<forall>i < length rs.
               snd (sendRequestAsync rt this (rs ! i)) = Fulfilled (resps ! i)
               \<and> get (resps ! i) ''id'' = Return (JNum (id' (rs ! i))))"
proof -
  from assms have "\<forall>p \<in> set (map (\<lambda>r. snd (sendRequestAsync rt this r)) rs). \<exists>v. p = Fulfilled v"
    by auto
  then obtain resps
    where members: "map (\<lambda>r. snd (sendRequestAsync rt this r)) rs = map Fulfilled resps"
    using all_fulfilled_values by blast
  have len: "length resps = length rs"
    using members by (metis length_map)
  have each: "snd (sendRequestAsync rt this (rs ! i)) = Fulfilled (resps ! i)" if "i < length rs" for i
  proof -
    have "map (\<lambda>r. snd (sendRequestAsync rt this r)) rs ! i = map Fulfilled resps ! i"
      using members by simp
    with that len show ?thesis by simp
  qed
  have batch: "snd (sendMultipleRequestsAsync rt this rank rs) = Fulfilled resps"
    by (simp add: sendMultipleRequestsAsync_def members Promise_all_Fulfilled)
  obtain d where d: "sendAsync rt this rank (Batch rs) (Function cb) = Return d"
    and c: "callback_calls d =
           fst (catch_do (then_do ([], snd (sendMultipleRequestsAsync rt this rank rs))
                  (\<lambda>v. invoke cb JNull (JArr v))) (\<lambda>err. invoke cb err JNull))"
    using sendAsync_Batch by blast
  have calls: "callback_calls d =
          (case cb JNull (JArr resps) of
             Return u \<Rightarrow> [(JNull, JArr resps)]
           | Throw e \<Rightarrow> [(JNull, JArr resps), (e, JNull)])"
    unfolding c deliver_calls batch by simp
  have first: "callback_calls d \<noteq> [] \<and> hd (callback_calls d) = (JNull, JArr resps)"
    unfolding calls by (cases "cb JNull (JArr resps)") simp_all
  have ids: "\<forall>i < length rs.
               snd (sendRequestAsync rt this (rs ! i)) = Fulfilled (resps ! i)
               \<and> get (resps ! i) ''id'' = Return (JNum (id' (rs ! i)))"
    using each fulfilled_response_id by blast
  from batch d first len ids show ?thesis by blast
qed

text \<open>The witness: a batch of a translated, a synchronous and a wallet-call request
  whose promises settle in the reverse order.\<close>

theorem batch_responses_in_request_order_witness:
  "\<exists>d. sendAsync example_runtime example_provider (\<lambda>i. 2 - i)
          (Batch [example_request 7 ''eth_gasPrice'' (JArr []),
                  example_request 8 ''eth_accounts'' (JArr []),
                  example_request 9 ''eth_call'' (JArr [])])
          (Function quiet_callback) = Return d
      \<and> hd (callback_calls d) =
          (JNull, JArr [JObj [(''jsonrpc'', JStr ''2.0''), (''id'', JNum 7),
                              (''result'', JStr ''0x5d21dba00'')],
                        JObj [(''jsonrpc'', JStr ''2.0''), (''id'', JNum 8),
                              (''result'', JArr [])],
                        JObj [(''jsonrpc'', JStr ''2.0''), (''id'', JNum 9),
                              (''result'', JStr ''0x10'')]])"
proof -
  have m7: "snd (sendRequestAsync example_runtime example_provider
                   (example_request 7 ''eth_gasPrice'' (JArr [])))
            = Fulfilled (JObj [(''jsonrpc'', JStr ''2.0''), (''id'', JNum 7),
                               (''result'', JStr ''0x5d21dba00'')])"
    by (simp add: example_defs sendRequestAsync_def handleSynchronousMethods_def
          handleSubscriptionMethods_def handleAsynchronousMethods_def eth_getGasPrice_def
          response0_def spread_id_def)
  have m8: "snd (sendRequestAsync example_runtime example_provider
                   (example_request 8 ''eth_accounts'' (JArr [])))
            = Fulfilled (JObj [(''jsonrpc'', JStr ''2.0''), (''id'', JNum 8),
                               (''result'', JArr [])])"
    by (simp add: example_defs sendRequestAsync_def handleSynchronousMethods_def
          eth_accounts_def response_def)
  have m9: "snd (sendRequestAsync example_runtime example_provider
                   (example_request 9 ''eth_call'' (JArr [])))
            = Fulfilled (JObj [(''jsonrpc'', JStr ''2.0''), (''id'', JNum 9),
                               (''result'', JStr ''0x10'')])"
    by (simp add: example_defs sendRequestAsync_def handleSynchronousMethods_def
          handleSubscriptionMethods_def handleAsynchronousMethods_def eth_call_def
          from_callback_def eth_call_handler_def get_def spread_id_def)
  have members: "\<forall>r \<in> set [example_request 7 ''eth_gasPrice'' (JArr []),
                           example_request 8 ''eth_accounts'' (JArr []),
                           example_request 9 ''eth_call'' (JArr [])].
                   \<exists>v. snd (sendRequestAsync example_runtime example_provider r) = Fulfilled v"
    using m7 m8 m9 by simp
  have run: "snd (sendMultipleRequestsAsync example_runtime example_provider (\<lambda>i. 2 - i)
               [example_request 7 ''eth_gasPrice'' (JArr []),
                example_request 8 ''eth_accounts'' (JArr []),
                example_request 9 ''eth_call'' (JArr [])])
             = Fulfilled
                 [JObj [(''jsonrpc'', JStr ''2.0''), (''id'', JNum 7),
                        (''result'', JStr ''0x5d21dba00'')],
                  JObj [(''jsonrpc'', JStr ''2.0''), (''id'', JNum 8), (''result'', JArr [])],
                  JObj [(''jsonrpc'', JStr ''2.0''), (''id'', JNum 9),
                        (''result'', JStr ''0x10'')]]"
    by (simp add: sendMultipleRequestsAsync_def Promise_all_def m7 m8 m9)
  from batch_responses_in_request_order [OF members, of "\<lambda>i. 2 - i" quiet_callback]
  obtain resps d where
    b: "snd (sendMultipleRequestsAsync example_runtime example_provider (\<lambda>i. 2 - i)
               [example_request 7 ''eth_gasPrice'' (JArr []),
                example_request 8 ''eth_accounts'' (JArr []),
                example_request 9 ''eth_call'' (JArr [])]) = Fulfilled resps"
    and d: "sendAsync example_runtime example_provider (\<lambda>i. 2 - i)
          (Batch [example_request 7 ''eth_gasPrice'' (JArr []),
                  example_request 8 ''eth_accounts'' (JArr []),
                  example_request 9 ''eth_call'' (JArr [])])
          (Function quiet_callback) = Return d"
    and h: "hd (callback_calls d) = (JNull, JArr resps)"
    by blast
  from b run have "resps = [JObj [(''jsonrpc'', JStr ''2.0''), (''id'', JNum 7),
                              (''result'', JStr ''0x5d21dba00'')],
                        JObj [(''jsonrpc'', JStr ''2.0''), (''id'', JNum 8),
                              (''result'', JArr [])],
                        JObj [(''jsonrpc'', JStr ''2.0''), (''id'', JNum 9),
                              (''result'', JStr ''0x10'')]]"
    by simp
  with d h show ?thesis by blast
qed

subsection \<open>How often the callback of sendAsync is invoked\<close>

lemma callback_calls_cases:
  "(\<exists>d. sendAsync rt this rank (Single r) (Function cb) = Return d
       \<and> callback_calls d =
          (case snd (sendRequestAsync rt this r) of
             Pending \<Rightarrow> []
           | Rejected e \<Rightarrow> [(e, JNull)]
           | Fulfilled v \<Rightarrow>
               (case cb JNull v of
                  Return u \<Rightarrow> [(JNull, v)]
                | Throw e \<Rightarrow> [(JNull, v), (e, JNull)])))
   \<and> (\<exists>d. sendAsync rt this rank (Batch rs) (Function cb) = Return d
       \<and> callback_calls d =
          (case snd (sendMultipleRequestsAsync rt this rank rs) of
             Pending \<Rightarrow> []
           | Rejected e \<Rightarrow> [(e, JNull)]
           | Fulfilled vs \<Rightarrow>
               (case cb JNull (JArr vs) of
                  Return u \<Rightarrow> [(JNull, JArr vs)]
                | Throw e \<Rightarrow> [(JNull, JArr vs), (e, JNull)])))"
  using sendAsync_Single [of rt this rank r cb] sendAsync_Batch [of rt this rank rs cb]
    deliver_calls [of "snd (sendRequestAsync rt this r)" cb "\<lambda>v. v"]
    deliver_calls [of "snd (sendMultipleRequestsAsync rt this rank rs)" cb JArr]
  by auto

text \<open>
  C3, as stated, fails. A callback that throws when it is handed the successful result
  is invoked a second time, with what it threw as the error, because the handler of
  \<^verbatim>\<open>.catch\<close> is chained behind the handler of \<^verbatim>\<open>.then\<close>; and a callback is not
  invoked at all while the dispatch does not settle (here the chain client never
  answers the receipt query).
\<close>

theorem callback_invoked_twice_or_never:
  "sendAsync example_runtime example_provider id
     (Single (example_request 7 ''eth_accounts'' (JArr []))) (Function throwing_callback)
   = Return \<lparr>native_calls = [],
             callback_calls =
               [(JNull, JObj [(''jsonrpc'', JStr ''2.0''), (''id'', JNum 7),
                              (''result'', JArr [])]),
                (Error ''boom'', JNull)],
             returned = Fulfilled JUndefined\<rparr>
   \<and> sendAsync example_runtime example_provider id
     (Single (example_request 8 ''eth_getTransactionReceipt'' (JArr [JStr ''0xabc''])))
     (Function quiet_callback)
   = Return \<lparr>native_calls = [], callback_calls = [], returned = Pending\<rparr>"
  by (simp add: example_defs sendAsync_def async_def sendRequestAsync_def
        handleSynchronousMethods_def handleSubscriptionMethods_def
        handleAsynchronousMethods_def eth_getTransactionReceipt_def
        eth_accounts_def response_def then_do_def catch_do_def
        invoke_def handled_def throwing_callback_def Error_def)

text \<open>
  C3, amended. For a request or a batch passed to \<open>sendAsync\<close> with a callback, once
  the dispatch has settled the callback has been invoked exactly once (with the result
  when the dispatch is fulfilled, with the error when it is rejected), provided the
  callback does not throw when it is invoked with a successful result.
\<close>

theorem callback_invoked_once:
  assumes "outcome = (case request of
                        Single r \<Rightarrow> snd (sendRequestAsync rt this r)
                      | Batch rs \<Rightarrow> then_map JArr (snd (sendMultipleRequestsAsync rt this rank rs)))"
    and "outcome \<noteq> Pending"
    and "\<forall>v e. outcome = Fulfilled v \<longrightarrow> cb JNull v \<noteq> Throw e"
  shows "\<exists>d. sendAsync rt this rank request (Function cb) = Return d
           \<and> length (callback_calls d) = 1
           \<and> (\<forall>v. outcome = Fulfilled v \<longrightarrow> callback_calls d = [(JNull, v)])
           \<and> (\<forall>e. outcome = Rejected e \<longrightarrow> callback_calls d = [(e, JNull)])"
proof (cases request)
  case (Single r)
  from callback_calls_cases [of rt this rank r cb]
  obtain d where d: "sendAsync rt this rank (Single r) (Function cb) = Return d"
    and c: "callback_calls d =
          (case snd (sendRequestAsync rt this r) of
             Pending \<Rightarrow> []
           | Rejected e \<Rightarrow> [(e, JNull)]
           | Fulfilled v \<Rightarrow>
               (case cb JNull v of
                  Return u \<Rightarrow> [(JNull, v)]
                | Throw e \<Rightarrow> [(JNull, v), (e, JNull)]))"
    by blast
  from Single assms(1) have o: "snd (sendRequestAsync rt this r) = outcome" by simp
  have "length (callback_calls d) = 1
           \<and> (\<forall>v. outcome = Fulfilled v \<longrightarrow> callback_calls d = [(JNull, v)])
           \<and> (\<forall>e. outcome = Rejected e \<longrightarrow> callback_calls d = [(e, JNull)])"
    using assms(2,3) unfolding c o
    by (cases outcome) (auto split: completion.splits)
  with d Single show ?thesis by blast
next
  case (Batch rs)
  from callback_calls_cases [of rt this rank _ cb rs]
  obtain d where d: "sendAsync rt this rank (Batch rs) (Function cb) = Return d"
    and c: "callback_calls d =
          (case snd (sendMultipleRequestsAsync rt this rank rs) of
             Pending \<Rightarrow> []
           | Rejected e \<Rightarrow> [(e, JNull)]
           | Fulfilled vs \<Rightarrow>
               (case cb JNull (JArr vs) of
                  Return u \<Rightarrow> [(JNull, JArr vs)]
                | Throw e \<Rightarrow> [(JNull, JArr vs), (e, JNull)]))"
    by blast
  from Batch assms(1)
  have o: "outcome = then_map JArr (snd (sendMultipleRequestsAsync rt this rank rs))" by simp
  have "length (callback_calls d) = 1
           \<and> (\<forall>v. outcome = Fulfilled v \<longrightarrow> callback_calls d = [(JNull, v)])
           \<and> (\<forall>e. outcome = Rejected e \<longrightarrow> callback_calls d = [(e, JNull)])"
    using assms(2,3) unfolding c o
    by (cases "snd (sendMultipleRequestsAsync rt this rank rs)")
       (auto split: completion.splits)
  with d Batch show ?thesis by blast
qed

theorem callback_invoked_once_witness:
  "(\<exists>d. sendAsync example_runtime example_provider id
          (Single (example_request 7 ''eth_sendTransaction'' (JArr []))) (Function quiet_callback)
          = Return d
       \<and> callback_calls d =
            [(JObj [(''code'', JNum 4001),
                    (''message'', JStr ''User denied transaction signature'')], JNull)])
   \<and> (\<exists>d. sendAsync example_runtime example_provider id
          (Batch [example_request 8 ''eth_chainId'' (JArr [])]) (Function quiet_callback)
          = Return d
       \<and> callback_calls d =
            [(JNull, JArr [JObj [(''jsonrpc'', JStr ''2.0''), (''id'', JNum 8),
                                 (''result'', JStr ''8217'')]])])"
proof -
  have m: "match_denied_rejected ''User DENIED the transaction''"
    by (simp add: match_denied_rejected_def toLower_def)
  have s: "snd (sendRequestAsync example_runtime example_provider
                 (example_request 7 ''eth_sendTransaction'' (JArr [])))
           = Rejected (JObj [(''code'', JNum 4001),
                             (''message'', JStr ''User denied transaction signature'')])"
    using m
    by (simp add: example_defs sendRequestAsync_def handleSynchronousMethods_def
          handleSubscriptionMethods_def handleAsynchronousMethods_def eth_sendTransaction_def
          catch_rejection_def get_def Error_def userRejectedRequest_def)
  have b: "snd (sendMultipleRequestsAsync example_runtime example_provider id
                 [example_request 8 ''eth_chainId'' (JArr [])])
           = Fulfilled [JObj [(''jsonrpc'', JStr ''2.0''), (''id'', JNum 8),
                              (''result'', JStr ''8217'')]]"
    by (simp add: example_defs sendMultipleRequestsAsync_def Promise_all_def
          sendRequestAsync_def handleSynchronousMethods_def eth_chainId_def getChainId_def
          response_def)
  from callback_invoked_once
         [where request = "Single (example_request 7 ''eth_sendTransaction'' (JArr []))"
            and rt = example_runtime and this = example_provider and rank = id
            and cb = quiet_callback
            and outcome = "Rejected (JObj [(''code'', JNum 4001),
                             (''message'', JStr ''User denied transaction signature'')])"]
       s
  have 1: "\<exists>d. sendAsync example_runtime example_provider id
          (Single (example_request 7 ''eth_sendTransaction'' (JArr []))) (Function quiet_callback)
          = Return d
       \<and> callback_calls d =
            [(JObj [(''code'', JNum 4001),
                    (''message'', JStr ''User denied transaction signature'')], JNull)]"
    by (auto simp: quiet_callback_def)
  from callback_invoked_once
         [where request = "Batch [example_request 8 ''eth_chainId'' (JArr [])]"
            and rt = example_runtime and this = example_provider and rank = id
            and cb = quiet_callback
            and outcome = "Fulfilled (JArr [JObj [(''jsonrpc'', JStr ''2.0''), (''id'', JNum 8),
                              (''result'', JStr ''8217'')]])"]
       b
  have 2: "\<exists>d. sendAsync example_runtime example_provider id
          (Batch [example_request 8 ''eth_chainId'' (JArr [])]) (Function quiet_callback)
          = Return d
       \<and> callback_calls d =
            [(JNull, JArr [JObj [(''jsonrpc'', JStr ''2.0''), (''id'', JNum 8),
                                 (''result'', JStr ''8217'')]])]"
    by (auto simp: quiet_callback_def)
  from 1 2 show ?thesis by simp
qed

subsection \<open>Methods that no switch names\<close>

lemma passthrough_forwarded:
  assumes "method r \<notin> set (synchronous_methods rt @ subscription_methods rt
                              @ translated_methods rt)"
  shows "sendRequestAsync rt this r =
           ([NativeCall (request_obj r) False],
            case sendAsync_returns (kaikasProvider this) (request_obj r) of
              Fulfilled res \<Rightarrow> if truthy res then Fulfilled (spread_id res (id' r)) else Pending
            | Rejected e \<Rightarrow> Rejected e
            | Pending \<Rightarrow> Pending)"
  using assms
  by (simp add: sendRequestAsync_def handleSynchronousMethods_def handleSubscriptionMethods_def
        handleAsynchronousMethods_def synchronous_methods_def subscription_methods_def
        translated_methods_def)

text \<open>
  C4 does not hold of the code. A request whose method no switch names is handed to
  the wallet's \<^verbatim>\<open>sendAsync\<close> as it is, but with no callback, and the promise of the
  dispatcher follows the value that this call returns (\<open>passthrough_forwarded\<close>). With a
  wallet that keeps to the callback contract (it returns nothing and would answer
  \<^verbatim>\<open>eth_getBalance\<close> through the callback) the promise never settles, whereas the
  translators \<open>eth_call\<close> and \<open>watchAsset\<close> wrap the same call into a promise by
  passing a callback.
\<close>

theorem passthrough_never_settles:
  "sendRequestAsync example_runtime example_provider
     (example_request 7 ''eth_getBalance'' (JArr [JStr ''0xA'', JStr ''latest'']))
   = ([NativeCall (JObj [(''jsonrpc'', JStr ''2.0''), (''id'', JNum 7),
                         (''method'', JStr ''eth_getBalance''),
                         (''params'', JArr [JStr ''0xA'', JStr ''latest''])]) False],
      Pending)
   \<and> sendAsync_reply (kaikasProvider example_provider)
        (JObj [(''jsonrpc'', JStr ''2.0''), (''id'', JNum 7),
               (''method'', JStr ''eth_getBalance''),
               (''params'', JArr [JStr ''0xA'', JStr ''latest''])])
     = Calls False JNull
         (JObj [(''jsonrpc'', JStr ''2.0''), (''id'', JNum 1), (''result'', JStr ''0x10'')])
   \<and> snd (eth_call example_provider (JArr [JObj [(''to'', JStr ''0xC'')], JStr ''latest'']))
     = Fulfilled (JObj [(''jsonrpc'', JStr ''2.0''), (''id'', JNum 1),
                        (''result'', JStr ''0x10'')])"
  by (simp add: example_defs sendRequestAsync_def handleSynchronousMethods_def
        handleSubscriptionMethods_def handleAsynchronousMethods_def request_obj_def
        eth_call_def from_callback_def eth_call_handler_def get_def)

subsection \<open>send without a callback\<close>

lemma synchronous_result_defined:
  "handleSynchronousMethods rt this r \<noteq> JUndefined
     \<longleftrightarrow> method r \<in> set (synchronous_methods rt)"
  by (auto simp: handleSynchronousMethods_def synchronous_methods_def eth_accounts_def
        net_version_def eth_chainId_def split: option.splits)

lemma sendRequest_cases:
  "sendRequest rt this r =
     (if method r \<in> set (synchronous_methods rt)
      then Return (response (id' r) (handleSynchronousMethods rt this r))
      else Throw (unsupported (method r)))"
  using synchronous_result_defined [of rt this r]
  by (auto simp: sendRequest_def Let_def)

lemma map_throwing_sendRequest:
  "map_throwing (sendRequest rt this) rs =
     (case find (\<lambda>r. method r \<notin> set (synchronous_methods rt)) rs of
        Some r \<Rightarrow> Throw (unsupported (method r))
      | None \<Rightarrow> Return (map (\<lambda>r. response (id' r) (handleSynchronousMethods rt this r)) rs))"
  by (induction rs) (auto simp: sendRequest_cases split: option.splits)

text \<open>
  C5. \<open>send\<close> with a single request and no callback consults the synchronous handler
  only: for a method of the synchronous set it returns the response with the id of the
  request and the handler's result (which is never \<^verbatim>\<open>undefined\<close> there), and for any
  other method it throws the error whose message names the method and asks for a
  callback. With a sequence of requests and no callback it returns the responses in
  order, unless some method is outside the synchronous set: then the whole call throws
  the error for the first such method.
\<close>

theorem send_without_callback:
  "send rt this rank (SendRequest (Single r) (NotFunction v)) =
     (if method r \<in> set (synchronous_methods rt)
      then Return (Response (response (id' r) (handleSynchronousMethods rt this r)))
      else Throw (Error (''Kaikas Wallet does not support calling '' @ method r
             @ '' synchronously without a callback. Please provide a callback parameter to call ''
             @ method r @ '' asynchronously.'')))
   \<and> send rt this rank (SendRequest (Batch rs) (NotFunction v)) =
     (case find (\<lambda>r. method r \<notin> set (synchronous_methods rt)) rs of
        Some r \<Rightarrow> Throw (unsupported (method r))
      | None \<Rightarrow> Return (Responses
          (map (\<lambda>r. response (id' r) (handleSynchronousMethods rt this r)) rs)))
   \<and> (handleSynchronousMethods rt this r = JUndefined
        \<longleftrightarrow> method r \<notin> set (synchronous_methods rt))"
  using synchronous_result_defined [of rt this r]
  by (auto simp: sendRequest_cases map_throwing_sendRequest unsupported_def split: option.splits)

theorem send_without_callback_witness:
  "send example_runtime example_provider id
     (SendRequest (Single (example_request 3 ''net_version'' (JArr []))) (NotFunction JUndefined))
   = Return (Response (JObj [(''jsonrpc'', JStr ''2.0''), (''id'', JNum 3),
                             (''result'', JNum 8217)]))
   \<and> send example_runtime example_provider id
     (SendRequest (Single (example_request 4 ''eth_gasPrice'' (JArr []))) (NotFunction JUndefined))
   = Throw (Error (''Kaikas Wallet does not support calling eth_gasPrice synchronously ''
                   @ ''without a callback. Please provide a callback parameter to call ''
                   @ ''eth_gasPrice asynchronously.''))
   \<and> send example_runtime example_provider id
     (SendRequest (Batch [example_request 5 ''eth_chainId'' (JArr []),
                          example_request 6 ''eth_gasPrice'' (JArr []),
                          example_request 7 ''eth_accounts'' (JArr [])]) (NotFunction JUndefined))
   = Throw (Error (''Kaikas Wallet does not support calling eth_gasPrice synchronously ''
                   @ ''without a callback. Please provide a callback parameter to call ''
                   @ ''eth_gasPrice asynchronously.''))"
  using send_without_callback
          [of example_runtime example_provider id "example_request 3 ''net_version'' (JArr [])"
              JUndefined
              "[example_request 5 ''eth_chainId'' (JArr []),
                example_request 6 ''eth_gasPrice'' (JArr []),
                example_request 7 ''eth_accounts'' (JArr [])]"]
        send_without_callback
          [of example_runtime example_provider id "example_request 4 ''eth_gasPrice'' (JArr [])"
              JUndefined "[]"]
  by (simp add: example_defs synchronous_methods_def handleSynchronousMethods_def
        net_version_def response_def unsupported_def)

subsection \<open>Rejections of the transaction translators\<close>

lemma starts_with_iff: "starts_with pat s \<longleftrightarrow> (\<exists>post. s = pat @ post)"
  by (induction pat s rule: starts_with.induct) auto

lemma contains_iff: "contains pat s \<longleftrightarrow> (\<exists>pre post. s = pre @ pat @ post)"
proof (induction s)
  case Nil
  then show ?case by auto
next
  case (Cons c cs)
  show ?case
  proof
    assume "contains pat (c # cs)"
    then consider "starts_with pat (c # cs)" | "contains pat cs" by auto
    then show "\<exists>pre post. c # cs = pre @ pat @ post"
    proof cases
      case 1
      then obtain post where "c # cs = pat @ post" by (auto simp: starts_with_iff)
      then have "c # cs = [] @ pat @ post" by simp
      then show ?thesis by blast
    next
      case 2
      with Cons obtain pre post where "cs = pre @ pat @ post" by auto
      then have "c # cs = (c # pre) @ pat @ post" by simp
      then show ?thesis by blast
    qed
  next
    assume "\<exists>pre post. c # cs = pre @ pat @ post"
    then obtain pre post where eq: "c # cs = pre @ pat @ post" by auto
    show "contains pat (c # cs)"
    proof (cases pre)
      case Nil
      with eq have "starts_with pat (c # cs)" by (auto simp: starts_with_iff)
      then show ?thesis by simp
    next
      case (Cons a pre')
      with eq have "cs = pre' @ pat @ post" by simp
      with Cons.IH have "contains pat cs" by blast
      then show ?thesis by simp
    qed
  qed
qed

lemma denied_iff:
  "(\<exists>s pre post. lookup err ''message'' = JStr s
       \<and> (map toLower s = pre @ ''denied'' @ post \<or> map toLower s = pre @ ''rejected'' @ post))
   \<longleftrightarrow> (\<exists>s. lookup err ''message'' = JStr s \<and> match_denied_rejected s)"
  unfolding match_denied_rejected_def contains_iff by blast

lemma catch_rejection_cases:
  assumes "\<not> nullish err"
  shows "catch_rejection err =
     (if \<exists>s pre post. lookup err ''message'' = JStr s
            \<and> (map toLower s = pre @ ''denied'' @ post \<or> map toLower s = pre @ ''rejected'' @ post)
      then Rejected (userRejectedRequest ''User denied transaction signature'')
      else Rejected err)"
proof (cases "lookup err ''message''")
  case (JStr s)
  have "match_denied_rejected s \<longleftrightarrow>
          (\<exists>pre post. map toLower s = pre @ ''denied'' @ post
                     \<or> map toLower s = pre @ ''rejected'' @ post)"
    unfolding match_denied_rejected_def contains_iff by blast
  with JStr assms show ?thesis by (simp add: catch_rejection_def get_def)
qed (use assms in \<open>simp_all add: catch_rejection_def get_def\<close>)

text \<open>A failure that is \<^verbatim>\<open>null\<close> or \<^verbatim>\<open>undefined\<close> has no \<^verbatim>\<open>message\<close> to read: the
  \<^verbatim>\<open>catch\<close> block itself then fails.\<close>

lemma catch_rejection_nullish:
  "nullish err \<Longrightarrow> catch_rejection err = Rejected (TypeError ''message'' err)"
  by (simp add: catch_rejection_def get_def)

text \<open>
  C6. When the chain client fails the sending or the signing of a transaction with a
  failure value \<open>err\<close> (a value, not \<^verbatim>\<open>null\<close> or \<^verbatim>\<open>undefined\<close>), the translator
  rejects with the standard user-rejected error (code 4001, a fixed message) if the
  \<^verbatim>\<open>message\<close> of \<open>err\<close> is a string that contains \<^verbatim>\<open>denied\<close> or \<^verbatim>\<open>rejected\<close>, letter
  case ignored, and with \<open>err\<close> itself otherwise.
\<close>

theorem transaction_rejection_resignalled:
  assumes "\<not> nullish err"
    and "denied \<longleftrightarrow> (\<exists>s pre post. lookup err ''message'' = JStr s
            \<and> (map toLower s = pre @ ''denied'' @ post \<or> map toLower s = pre @ ''rejected'' @ post))"
  shows "(klay_sendTransaction (caver this) (index ps 0) = Rejected err \<longrightarrow>
            eth_sendTransaction this ps =
              (if denied
               then Rejected (JObj [(''code'', JNum 4001),
                                    (''message'', JStr ''User denied transaction signature'')])
               else Rejected err))
       \<and> (klay_signTransaction (caver this) (index ps 0) = Rejected err \<longrightarrow>
            eth_signTransaction this ps =
              (if denied
               then Rejected (JObj [(''code'', JNum 4001),
                                    (''message'', JStr ''User denied transaction signature'')])
               else Rejected err))"
proof -
  have c: "catch_rejection err =
             (if denied then Rejected (userRejectedRequest ''User denied transaction signature'')
              else Rejected err)"
    unfolding assms(2) by (rule catch_rejection_cases [OF assms(1)])
  have u: "userRejectedRequest ''User denied transaction signature'' =
             JObj [(''code'', JNum 4001), (''message'', JStr ''User denied transaction signature'')]"
    by (simp add: userRejectedRequest_def)
  have s: "eth_sendTransaction this ps = catch_rejection err"
    if "klay_sendTransaction (caver this) (index ps 0) = Rejected err"
    using that by (simp add: eth_sendTransaction_def)
  have g: "eth_signTransaction this ps = catch_rejection err"
    if "klay_signTransaction (caver this) (index ps 0) = Rejected err"
    using that by (simp add: eth_signTransaction_def)
  show ?thesis using s g unfolding c u by blast
qed

theorem transaction_rejection_resignalled_witness:
  "eth_sendTransaction example_provider (JArr [JObj [(''to'', JStr ''0xB'')]])
     = Rejected (JObj [(''code'', JNum 4001),
                       (''message'', JStr ''User denied transaction signature'')])
   \<and> eth_signTransaction example_provider (JArr [JObj [(''to'', JStr ''0xB'')]])
     = Rejected (Error ''insufficient funds'')"
proof -
  have d: "True \<longleftrightarrow> (\<exists>s pre post. lookup (Error ''User DENIED the transaction'') ''message'' = JStr s
            \<and> (map toLower s = pre @ ''denied'' @ post \<or> map toLower s = pre @ ''rejected'' @ post))"
    unfolding denied_iff by (simp add: Error_def toLower_def match_denied_rejected_def)
  have n: "False \<longleftrightarrow> (\<exists>s pre post. lookup (Error ''insufficient funds'') ''message'' = JStr s
            \<and> (map toLower s = pre @ ''denied'' @ post \<or> map toLower s = pre @ ''rejected'' @ post))"
    unfolding denied_iff by (simp add: Error_def toLower_def match_denied_rejected_def)
  have e1: "\<not> nullish (Error ''User DENIED the transaction'')" by (simp add: Error_def)
  have e2: "\<not> nullish (Error ''insufficient funds'')" by (simp add: Error_def)
  have r1: "klay_sendTransaction (caver example_provider)
              (index (JArr [JObj [(''to'', JStr ''0xB'')]]) 0)
            = Rejected (Error ''User DENIED the transaction'')"
    by (simp add: example_provider_def example_caver_def constructor_def)
  have r2: "klay_signTransaction (caver example_provider)
              (index (JArr [JObj [(''to'', JStr ''0xB'')]]) 0)
            = Rejected (Error ''insufficient funds'')"
    by (simp add: example_provider_def example_caver_def constructor_def)
  from transaction_rejection_resignalled [OF e1 d, of example_provider
         "JArr [JObj [(''to'', JStr ''0xB'')]]"] r1
  have 1: "eth_sendTransaction example_provider (JArr [JObj [(''to'', JStr ''0xB'')]])
     = Rejected (JObj [(''code'', JNum 4001),
                       (''message'', JStr ''User denied transaction signature'')])"
    by simp
  from transaction_rejection_resignalled [OF e2 n, of example_provider
         "JArr [JObj [(''to'', JStr ''0xB'')]]"] r2
  have 2: "eth_signTransaction example_provider (JArr [JObj [(''to'', JStr ''0xB'')]])
     = Rejected (Error ''insufficient funds'')"
    by simp
  from 1 2 show ?thesis by simp
qed

subsection \<open>Validation of watch-asset requests\<close>

text \<open>What the four guards of \<open>wallet_watchAsset\<close> do for a request that is present
  (a value that is not \<^verbatim>\<open>null\<close> or \<^verbatim>\<open>undefined\<close>): a missing or otherwise falsy
  \<^verbatim>\<open>type\<close>, a type other than \<^verbatim>\<open>ERC20\<close>, missing \<^verbatim>\<open>options\<close> and a missing
  \<^verbatim>\<open>options.address\<close> are each rejected with the invalid-params error for that field,
  and the wallet's \<^verbatim>\<open>sendAsync\<close> is not called.\<close>

lemma watchAsset_validation:
  assumes "request = (if isArray ps then index ps 0 else ps)" and "\<not> nullish request"
    and "type = lookup request ''type''" and "options = lookup request ''options''"
  shows "(\<not> truthy type \<longrightarrow>
            wallet_watchAsset rt this ps = ([], Rejected (invalidParams ''Type is required'')))
       \<and> (truthy type \<and> type \<noteq> JStr ''ERC20'' \<longrightarrow>
            wallet_watchAsset rt this ps =
              ([], Rejected (invalidParams (''Asset of type '' @ [CHR 0x27] @ template rt type
                                            @ [CHR 0x27] @ '' is not supported''))))
       \<and> (type = JStr ''ERC20'' \<and> \<not> truthy options \<longrightarrow>
            wallet_watchAsset rt this ps = ([], Rejected (invalidParams ''Options are required'')))
       \<and> (type = JStr ''ERC20'' \<and> truthy options \<and> \<not> truthy (lookup options ''address'') \<longrightarrow>
            wallet_watchAsset rt this ps = ([], Rejected (invalidParams ''Address is required'')))
       \<and> (type \<noteq> JStr ''ERC20'' \<or> \<not> truthy options \<or> \<not> truthy (lookup options ''address'') \<longrightarrow>
            fst (wallet_watchAsset rt this ps) = []
            \<and> (\<exists>msg. snd (wallet_watchAsset rt this ps) = Rejected (invalidParams msg)))"
  using assms
  by (auto simp: wallet_watchAsset_def get_def get_opt_def Let_def)

lemma watchAsset_validation_example:
  "wallet_watchAsset example_runtime example_provider
     (JArr [JObj [(''type'', JStr ''ERC721''), (''options'', JObj [(''address'', JStr ''0x1'')])]])
   = ([], Rejected (invalidParams (''Asset of type '' @ [CHR 0x27] @ ''ERC721'' @ [CHR 0x27]
                                   @ '' is not supported'')))
   \<and> wallet_watchAsset example_runtime example_provider
     (JArr [JObj [(''type'', JStr ''ERC20''), (''options'', JObj [(''symbol'', JStr ''KLAY'')])]])
   = ([], Rejected (invalidParams ''Address is required''))"
  using watchAsset_validation
      [where ps = "JArr [JObj [(''type'', JStr ''ERC721''),
                               (''options'', JObj [(''address'', JStr ''0x1'')])]]"
         and request = "JObj [(''type'', JStr ''ERC721''),
                              (''options'', JObj [(''address'', JStr ''0x1'')])]"
         and type = "JStr ''ERC721''" and options = "JObj [(''address'', JStr ''0x1'')]"
         and rt = example_runtime and this = example_provider]
    watchAsset_validation
      [where ps = "JArr [JObj [(''type'', JStr ''ERC20''),
                               (''options'', JObj [(''symbol'', JStr ''KLAY'')])]]"
         and request = "JObj [(''type'', JStr ''ERC20''),
                              (''options'', JObj [(''symbol'', JStr ''KLAY'')])]"
         and type = "JStr ''ERC20''" and options = "JObj [(''symbol'', JStr ''KLAY'')]"
         and rt = example_runtime and this = example_provider]
  by (simp add: template_def)

text \<open>When the parameters hold no request at all, the first guard cannot read
  \<^verbatim>\<open>type\<close>: the translator fails with a \<^verbatim>\<open>TypeError\<close>.\<close>

lemma watchAsset_without_request:
  assumes "request = (if isArray ps then index ps 0 else ps)" and "nullish request"
  shows "wallet_watchAsset rt this ps = ([], Rejected (TypeError ''type'' request))"
  using assms by (simp add: wallet_watchAsset_def get_def)

text \<open>
  C7 does not hold of the code. A watch-asset call without parameters
  (\<^verbatim>\<open>send('wallet_watchAsset')\<close>, which dispatches the parameters \<^verbatim>\<open>[]\<close>) has no
  \<^verbatim>\<open>type\<close>, so by the claim it fails with the invalid-params error that names the type.
  The first guard, \<^verbatim>\<open>!request.type\<close>, reads the property of \<^verbatim>\<open>undefined\<close> instead: the
  call is rejected with a \<^verbatim>\<open>TypeError\<close>, which is no invalid-params error, whereas the
  guards after it read through \<^verbatim>\<open>request?.\<close>. The other half of the claim holds here
  too: the wallet's \<^verbatim>\<open>sendAsync\<close> is not called.
\<close>

theorem watchAsset_without_params_type_error:
  "send example_runtime example_provider id (SendMethod ''wallet_watchAsset'' JUndefined)
     = Return (Dispatched \<lparr>native_calls = [], callback_calls = [],
                           returned = Rejected (TypeError ''type'' JUndefined)\<rparr>)
   \<and> sendRequestAsync example_runtime example_provider
       (example_request 0 ''wallet_watchAsset'' (JArr []))
     = ([], Rejected (TypeError ''type'' JUndefined))
   \<and> wallet_watchAsset example_runtime example_provider (JArr [])
     = ([], Rejected (TypeError ''type'' JUndefined))
   \<and> (\<forall>msg. TypeError ''type'' JUndefined \<noteq> invalidParams msg)
   \<and> get_opt JUndefined ''type'' = JUndefined"
  by (simp add: example_defs sendRequestAsync_def handleSynchronousMethods_def
        handleSubscriptionMethods_def handleAsynchronousMethods_def wallet_watchAsset_def
        get_def get_opt_def TypeError_def invalidParams_def)

subsection \<open>sendAsync without a callback\<close>

text \<open>
  C8, as stated, fails: \<open>sendAsync\<close> is an \<^verbatim>\<open>async\<close> function, so its
  \<^verbatim>\<open>throw new Error('callback is required')\<close> does not reach the caller as an
  exception. The call returns a promise that is rejected with that error.
\<close>

theorem missing_callback_is_a_rejection:
  "sendAsync example_runtime example_provider id
     (Single (example_request 1 ''eth_accounts'' (JArr []))) (NotFunction JUndefined)
   = Return \<lparr>native_calls = [], callback_calls = [],
             returned = Rejected (Error ''callback is required'')\<rparr>
   \<and> sendAsync example_runtime example_provider id
     (Single (example_request 1 ''eth_accounts'' (JArr []))) (NotFunction JUndefined)
   \<noteq> Throw (Error ''callback is required'')"
  by (simp add: sendAsync_def async_def)

text \<open>
  C8, amended. For every invocation of \<open>sendAsync\<close> whose callback argument is not a
  function, the call returns a promise rejected with the error \<^verbatim>\<open>callback is required\<close>;
  it throws nothing to the caller, dispatches nothing to the wallet and invokes no
  callback.
\<close>

theorem sendAsync_without_callback_rejects:
  "sendAsync rt this rank request (NotFunction v) =
     Return \<lparr>native_calls = [], callback_calls = [],
             returned = Rejected (Error ''callback is required'')\<rparr>
   \<and> (\<forall>e. sendAsync rt this rank request (NotFunction v) \<noteq> Throw e)"
  by (simp add: sendAsync_def async_def)

theorem sendAsync_without_callback_rejects_witness:
  "sendAsync example_runtime example_provider id
     (Batch [example_request 1 ''eth_accounts'' (JArr [])]) (NotFunction (JStr ''cb''))
   = Return \<lparr>native_calls = [], callback_calls = [],
             returned = Rejected (Error ''callback is required'')\<rparr>"
  using sendAsync_without_callback_rejects
          [of example_runtime example_provider id
              "Batch [example_request 1 ''eth_accounts'' (JArr [])]" "JStr ''cb''"]
  by simp

subsection \<open>Accounts before and after authorization\<close>

text \<open>
  C9. On a freshly constructed provider the accounts method returns the empty
  sequence. Once \<open>enable\<close> has resolved with addresses \<open>as\<close> (not empty, such as
  \<^verbatim>\<open>["0xA", "0xB"]\<close>), the accounts method returns exactly \<open>as\<close>, through the
  synchronous handler and through \<open>send\<close> with the method name; a further \<open>enable\<close>
  resolves with \<open>as\<close> without invoking the wallet's \<^verbatim>\<open>enable()\<close> and leaves the provider
  as it is, so the same holds after any number \<open>n\<close> of further calls.
\<close>

theorem accounts_before_and_after_enable:
  assumes "enable_settles provider = Fulfilled as" and "as \<noteq> []"
    and "method r = methodName rt M_eth_accounts"
    and "this0 = constructor provider c sm" and "this1 = this0\<lparr>addresses := as\<rparr>"
  shows "handleSynchronousMethods rt this0 r = JArr []
       \<and> enable this0 = (1, Fulfilled as, this1)
       \<and> handleSynchronousMethods rt this1 r = JArr (map JStr as)
       \<and> enable this1 = (0, Fulfilled as, this1)
       \<and> ((\<lambda>t. snd (snd (enable t))) ^^ n) this1 = this1
       \<and> send rt this1 rank (SendMethod (methodName rt M_eth_accounts) (JArr []))
           = Return (Dispatched \<lparr>native_calls = [], callback_calls = [],
                                 returned = Fulfilled (JArr (map JStr as))\<rparr>)"
proof -
  have e1: "enable this1 = (0, Fulfilled as, this1)"
    using assms by (simp add: enable_def)
  have it: "((\<lambda>t. snd (snd (enable t))) ^^ n) this1 = this1"
    by (induction n) (simp_all add: e1)
  have e0: "enable this0 = (1, Fulfilled as, this1)"
    using assms by (simp add: enable_def constructor_def)
  have a0: "handleSynchronousMethods rt this0 r = JArr []"
    using assms by (simp add: handleSynchronousMethods_def eth_accounts_def constructor_def)
  have a1: "handleSynchronousMethods rt this1 r = JArr (map JStr as)"
    using assms by (simp add: handleSynchronousMethods_def eth_accounts_def)
  have s: "send rt this1 rank (SendMethod (methodName rt M_eth_accounts) (JArr []))
           = Return (Dispatched \<lparr>native_calls = [], callback_calls = [],
                                 returned = Fulfilled (JArr (map JStr as))\<rparr>)"
    using assms
    by (simp add: sendRequestAsync_def handleSynchronousMethods_def eth_accounts_def
          response_def get_def)
  from e0 e1 it a0 a1 s show ?thesis by simp
qed

theorem accounts_before_and_after_enable_witness:
  "handleSynchronousMethods example_runtime example_provider
      (example_request 1 ''eth_accounts'' (JArr [])) = JArr []
   \<and> enable example_provider
       = (1, Fulfilled [''0xA'', ''0xB''], example_provider\<lparr>addresses := [''0xA'', ''0xB'']\<rparr>)
   \<and> handleSynchronousMethods example_runtime
        (example_provider\<lparr>addresses := [''0xA'', ''0xB'']\<rparr>)
        (example_request 1 ''eth_accounts'' (JArr [])) = JArr [JStr ''0xA'', JStr ''0xB'']
   \<and> enable (example_provider\<lparr>addresses := [''0xA'', ''0xB'']\<rparr>)
       = (0, Fulfilled [''0xA'', ''0xB''], example_provider\<lparr>addresses := [''0xA'', ''0xB'']\<rparr>)"
  using accounts_before_and_after_enable
          [where provider = example_wallet and as = "[''0xA'', ''0xB'']"
             and r = "example_request 1 ''eth_accounts'' (JArr [])"
             and rt = example_runtime and c = example_caver
             and sm = "\<lambda>r. Fulfilled (SubscriptionResult (JStr ''0x1''))"
             and ?this0.0 = example_provider
             and ?this1.0 = "example_provider\<lparr>addresses := [''0xA'', ''0xB'']\<rparr>"
             and n = 3 and rank = id]
  by (simp add: example_provider_def example_wallet_def example_runtime_def example_request_def)

subsection \<open>The handlers of the wallet's callback\<close>

text \<open>
  C10. The handlers that \<open>eth_call\<close> and \<open>watchAsset\<close> pass to the wallet read
  \<^verbatim>\<open>result.result\<close> without testing \<^verbatim>\<open>result\<close>. When the wallet invokes them with an
  error and a \<^verbatim>\<open>null\<close> or \<^verbatim>\<open>undefined\<close> result, they throw a \<^verbatim>\<open>TypeError\<close> instead of
  rejecting with the error: the promise is then rejected with that \<^verbatim>\<open>TypeError\<close> when
  the handler ran inside the call of \<^verbatim>\<open>sendAsync\<close>, and is never settled otherwise.
\<close>

theorem native_handlers_read_result_unguarded:
  assumes "res = JNull \<or> res = JUndefined"
  shows "eth_call_handler err res = Throw (TypeError ''result'' res)
       \<and> watchAsset_handler err res = Throw (TypeError ''result'' res)
       \<and> eth_call_handler err res \<noteq> Return (Rejected err)
       \<and> watchAsset_handler err res \<noteq> Return (Rejected err)
       \<and> from_callback (k\<lparr>sendAsync_reply := (\<lambda>pl. Calls inside err res)\<rparr>) pl eth_call_handler
           = ([NativeCall pl True], if inside then Rejected (TypeError ''result'' res) else Pending)
       \<and> from_callback (k\<lparr>sendAsync_reply := (\<lambda>pl. Calls inside err res)\<rparr>) pl watchAsset_handler
           = ([NativeCall pl True], if inside then Rejected (TypeError ''result'' res) else Pending)"
  using assms
  by (auto simp: eth_call_handler_def watchAsset_handler_def get_def from_callback_def)

theorem native_handlers_read_result_unguarded_witness:
  "eth_call_handler (Error ''execution reverted'') JUndefined = Throw (TypeError ''result'' JUndefined)
   \<and> watchAsset_handler (Error ''execution reverted'') JUndefined = Throw (TypeError ''result'' JUndefined)
   \<and> snd (eth_call (example_provider\<lparr>kaikasProvider :=
         example_wallet\<lparr>sendAsync_reply := (\<lambda>pl. Calls False (Error ''execution reverted'') JUndefined)\<rparr>\<rparr>)
         (JArr [])) = Pending"
  using native_handlers_read_result_unguarded
          [where res = JUndefined and err = "Error ''execution reverted''"
             and k = example_wallet and inside = False
             and pl = "JObj [(''method'', JStr ''klay_call''),
                             (''params'', JArr [JUndefined, JUndefined])]"]
  by (simp add: eth_call_def example_provider_def constructor_def)

end
